theory Spec2Isabelle
  imports Complex_Main "HOL-Library.Multiset"
begin

section \<open>JavaScript values\<close>

text \<open>
  The ledger of \<open>InventoryManager.jsx\<close> is two React state arrays of plain objects.
  A value is modelled dynamically, as JavaScript has it: an object is the list of its own
  properties in insertion order, an array is a list.  A finite number is represented by
  its exact value (arithmetic is not rounded to 53 bits; the model agrees with IEEE
  doubles wherever the double operation is exact, in particular on integers below
  \<open>2^53\<close>), \<open>NaN\<close> is a value of its own, and the infinities are left out.
  \<open>TimeStr t\<close> stands for the ISO-8601 text that \<open>new Date(t).toISOString()\<close> yields
  for the time value \<open>t\<close> (milliseconds); \<open>Date\<close> parses it back to \<open>t\<close>.  Every other
  string is a \<open>Str\<close>, and stands for a text that \<open>Date\<close> does not parse.
  The keys of an object are pairwise different.  Booleans do not occur in the ledger and
  are left out.  The properties of a record hold primitive values; the conversion of an
  array or an object to a number or to a date is outside the model.
\<close>

datatype jsval =
    Undefined
  | Null
  | Num rat
  | NaN
  | Str string
  | TimeStr int
  | Arr "jsval list"
  | Obj "(string \<times> jsval) list"

text \<open>
  Property read \<open>v.k\<close>; a property that is missing reads as \<open>undefined\<close>.  (Reading a
  property of \<open>null\<close> throws; the two places where the program can meet a \<open>null\<close>, the
  comparator of the sort and the parsed backup file, model the exception themselves.)
\<close>

fun getp :: "jsval \<Rightarrow> string \<Rightarrow> jsval" where
  "getp (Obj ps) k = (case map_of ps k of Some v \<Rightarrow> v | None \<Rightarrow> Undefined)"
| "getp _ k = Undefined"

text \<open>
  One \<open>key: value\<close> entry of an object literal, or one property copied by a spread:
  an existing key keeps its position and takes the new value, a new key is appended.
\<close>

fun put :: "string \<Rightarrow> jsval \<Rightarrow> (string \<times> jsval) list \<Rightarrow> (string \<times> jsval) list" where
  "put k v [] = [(k, v)]"
| "put k v ((k', v') # ps) = (if k = k' then (k, v) # ps else (k', v') # put k v ps)"

text \<open>
  \<open>{ ...acc, ...src }\<close>: the own properties of the object \<open>src\<close> are copied in order.
  (The program spreads its own records and the form state, which are objects.)
\<close>

fun spread :: "jsval \<Rightarrow> (string \<times> jsval) list \<Rightarrow> (string \<times> jsval) list" where
  "spread (Obj ps) acc = foldl (\<lambda>a (k, v). put k v a) acc ps"
| "spread _ acc = acc"

text \<open>Truthiness (\<open>!v\<close> is its negation).\<close>

fun truthy :: "jsval \<Rightarrow> bool" where
  "truthy Undefined = False"
| "truthy Null = False"
| "truthy NaN = False"
| "truthy (Num x) = (x \<noteq> 0)"
| "truthy (Str s) = (s \<noteq> [])"
| "truthy (TimeStr t) = True"
| "truthy (Arr xs) = True"
| "truthy (Obj ps) = True"

subsection \<open>Decimal text\<close>

definition is_digit :: "char \<Rightarrow> bool" where
  "is_digit c = (48 \<le> (of_char c :: nat) \<and> (of_char c :: nat) \<le> 57)"

definition digit_val :: "char \<Rightarrow> nat" where
  "digit_val c = of_char c - 48"

definition digit_char :: "nat \<Rightarrow> char" where
  "digit_char d = ''0123456789'' ! d"

definition nat_of_digits :: "string \<Rightarrow> nat" where
  "nat_of_digits ds = foldl (\<lambda>a c. 10 * a + digit_val c) 0 ds"

text \<open>\<open>String(n)\<close> for a natural number: its decimal digits, no leading zero.\<close>

fun digits_of :: "nat \<Rightarrow> string" where
  "digits_of n = (if n < 10 then [digit_char n] else digits_of (n div 10) @ [digit_char (n mod 10)])"

declare digits_of.simps [simp del]

definition is_ws :: "char \<Rightarrow> bool" where
  "is_ws c = (c \<in> {CHR '' '', CHR 0x09, CHR 0x0A, CHR 0x0B, CHR 0x0C, CHR 0x0D})"

text \<open>An optional sign: the factor it stands for and the rest of the text.\<close>

fun take_sign :: "string \<Rightarrow> rat \<times> string" where
  "take_sign (c # cs) =
     (if c = CHR ''-'' then (- 1, cs) else if c = CHR ''+'' then (1, cs) else (1, c # cs))"
| "take_sign [] = (1, [])"

text \<open>
  \<open>parseInt(s, 10)\<close> on a text: leading white space is skipped, then an optional sign,
  then the longest run of decimal digits; no digit gives \<open>NaN\<close>.
\<close>

definition parseInt_str :: "string \<Rightarrow> jsval" where
  "parseInt_str s =
     (let (sg, r) = take_sign (dropWhile is_ws s);
          ds = takeWhile is_digit r
      in if ds = [] then NaN else Num (sg * of_nat (nat_of_digits ds)))"

text \<open>
  \<open>parseFloat(s)\<close> on a text: white space, sign, then the longest prefix that is a
  decimal literal, \<open>digits [. digits]\<close> or \<open>. digits\<close>.  An exponent part and the text
  \<open>Infinity\<close> are not read by the model; the form's input filter (\<open>handleChange\<close>)
  leaves only digits and one point in a text that reaches \<open>parseFloat\<close>.
\<close>

definition parseFloat_str :: "string \<Rightarrow> jsval" where
  "parseFloat_str s =
     (let (sg, r) = take_sign (dropWhile is_ws s);
          ip = takeWhile is_digit r;
          r' = dropWhile is_digit r;
          fp = (case r' of c # cs \<Rightarrow> if c = CHR ''.'' then takeWhile is_digit cs else [] | [] \<Rightarrow> [])
      in if ip = [] \<and> fp = [] then NaN
         else Num (sg * (of_nat (nat_of_digits ip) + of_nat (nat_of_digits fp) / 10 ^ length fp)))"

subsection \<open>Numbers\<close>

text \<open>
  The calendar year of a time value (days from the civil epoch, proleptic Gregorian
  calendar): the leading number of the ISO text, which is what \<open>parseInt\<close> and
  \<open>parseFloat\<close> read from it.
\<close>

definition year_of :: "int \<Rightarrow> int" where
  "year_of t =
     (let z = t div 86400000 + 719468;
          era = z div 146097;
          doe = z mod 146097;
          yoe = (doe - doe div 1460 + doe div 36524 - doe div 146096) div 365;
          doy = doe - (365 * yoe + yoe div 4 - yoe div 100);
          mp = (5 * doy + 2) div 153
      in yoe + era * 400 + (if mp < 10 then 0 else 1))"

text \<open>Truncation toward zero.\<close>

definition trunc :: "rat \<Rightarrow> int" where
  "trunc x = (if x < 0 then - \<lfloor>- x\<rfloor> else \<lfloor>x\<rfloor>)"

text \<open>
  \<open>parseInt(v, 10)\<close> and \<open>parseFloat(v)\<close> convert their argument to text first.  For a
  number that text is its decimal expansion (between \<open>10^-6\<close> and \<open>10^21\<close> in magnitude;
  the exponent notation outside that range is not modelled), so \<open>parseInt\<close> truncates
  and \<open>parseFloat\<close> gives the number back; \<open>undefined\<close>, \<open>null\<close>, \<open>NaN\<close> and an
  object give \<open>NaN\<close>.  An array is converted through its first element.
\<close>

fun parseInt10 :: "jsval \<Rightarrow> jsval" where
  "parseInt10 (Str s) = parseInt_str s"
| "parseInt10 (Num x) = Num (of_int (trunc x))"
| "parseInt10 (TimeStr t) = Num (of_int (year_of t))"
| "parseInt10 (Arr (v # vs)) = parseInt10 v"
| "parseInt10 _ = NaN"

fun parseFloat :: "jsval \<Rightarrow> jsval" where
  "parseFloat (Str s) = parseFloat_str s"
| "parseFloat (Num x) = Num x"
| "parseFloat (TimeStr t) = Num (of_int (year_of t))"
| "parseFloat (Arr (v # vs)) = parseFloat v"
| "parseFloat _ = NaN"

text \<open>
  \<open>Number(s)\<close> on a text: white space at both ends is dropped, the empty text is \<open>0\<close>,
  and otherwise the whole text must be a signed decimal literal (exponent, radix
  prefixes and \<open>Infinity\<close> are not modelled).
\<close>

definition number_of_str :: "string \<Rightarrow> jsval" where
  "number_of_str s =
     (let t = rev (dropWhile is_ws (rev (dropWhile is_ws s)))
      in if t = [] then Num 0
         else
           (let (sg, r) = take_sign t;
                ip = takeWhile is_digit r;
                r' = dropWhile is_digit r;
                (fp, rest) = (case r' of
                                c # cs \<Rightarrow> if c = CHR ''.'' then (takeWhile is_digit cs, dropWhile is_digit cs)
                                          else ([], r')
                              | [] \<Rightarrow> ([], []))
            in if (ip = [] \<and> fp = []) \<or> rest \<noteq> [] then NaN
               else Num (sg * (of_nat (nat_of_digits ip) + of_nat (nat_of_digits fp) / 10 ^ length fp))))"

text \<open>
  \<open>ToNumber\<close>, the coercion that \<open>-\<close>, \<open>*\<close>, \<open><=\<close> and \<open>>\<close> apply to an operand when the
  other operand is a number (as it is at every use in the program).  Arrays as operands
  are outside the model and read as \<open>NaN\<close>.
\<close>

fun toNumber :: "jsval \<Rightarrow> jsval" where
  "toNumber Undefined = NaN"
| "toNumber Null = Num 0"
| "toNumber (Num x) = Num x"
| "toNumber NaN = NaN"
| "toNumber (Str s) = number_of_str s"
| "toNumber (TimeStr t) = NaN"
| "toNumber (Arr xs) = NaN"
| "toNumber (Obj ps) = NaN"

text \<open>\<open>a <= b\<close>, \<open>a > b\<close>, \<open>a - b\<close>, \<open>a * b\<close>: every comparison with \<open>NaN\<close> is false.\<close>

definition js_le :: "jsval \<Rightarrow> jsval \<Rightarrow> bool" where
  "js_le a b = (case (toNumber a, toNumber b) of (Num x, Num y) \<Rightarrow> x \<le> y | _ \<Rightarrow> False)"

definition js_gt :: "jsval \<Rightarrow> jsval \<Rightarrow> bool" where
  "js_gt a b = (case (toNumber a, toNumber b) of (Num x, Num y) \<Rightarrow> x > y | _ \<Rightarrow> False)"

definition js_sub :: "jsval \<Rightarrow> jsval \<Rightarrow> jsval" where
  "js_sub a b = (case (toNumber a, toNumber b) of (Num x, Num y) \<Rightarrow> Num (x - y) | _ \<Rightarrow> NaN)"

definition js_mul :: "jsval \<Rightarrow> jsval \<Rightarrow> jsval" where
  "js_mul a b = (case (toNumber a, toNumber b) of (Num x, Num y) \<Rightarrow> Num (x * y) | _ \<Rightarrow> NaN)"

text \<open>
  \<open>a === b\<close> on primitives: equal values of the same type, and \<open>NaN\<close> equals nothing.
  (Objects compare by reference in JavaScript; identifiers are primitives.)
\<close>

definition strict_eq :: "jsval \<Rightarrow> jsval \<Rightarrow> bool" where
  "strict_eq a b = (a = b \<and> a \<noteq> NaN)"

text \<open>
  \<open>x.toFixed(2)\<close>: with \<open>x\<close> made non-negative, the integer \<open>n\<close> for which \<open>n / 100 - x\<close>
  is closest to zero, the larger one if there are two; the text is the sign, the digits
  of \<open>n div 100\<close>, a point and the two digits of \<open>n mod 100\<close>.  (From \<open>10^21\<close> on
  JavaScript switches to exponent notation, which is not modelled.)
\<close>

definition hundredths :: "rat \<Rightarrow> nat" where
  "hundredths x = nat \<lfloor>\<bar>x\<bar> * 100 + 1 / 2\<rfloor>"

fun toFixed2 :: "jsval \<Rightarrow> jsval" where
  "toFixed2 (Num x) =
     (let n = hundredths x
      in Str ((if x < 0 then ''-'' else []) @ digits_of (n div 100) @ ''.'' @
              [digit_char (n mod 100 div 10), digit_char (n mod 10)]))"
| "toFixed2 _ = Str ''NaN''"

text \<open>\<open>String(x)\<close> for an integer-valued number (the only use: a serial number).\<close>

definition int_text :: "rat \<Rightarrow> string" where
  "int_text x = (if x < 0 then ''-'' @ digits_of (nat (- trunc x)) else digits_of (nat (trunc x)))"

text \<open>
  The time value of \<open>new Date(v)\<close>; \<open>NaN\<close> is the invalid date.  A number is clipped to
  the range of \<open>Date\<close>, \<open>null\<close> is time \<open>0\<close>.
\<close>

fun timeValue :: "jsval \<Rightarrow> jsval" where
  "timeValue (TimeStr t) = Num (of_int t)"
| "timeValue (Num x) = (if \<bar>x\<bar> \<le> 8640000000000000 then Num (of_int (trunc x)) else NaN)"
| "timeValue Null = Num 0"
| "timeValue _ = NaN"

definition isArray :: "jsval \<Rightarrow> bool" where
  "isArray v = (case v of Arr xs \<Rightarrow> True | _ \<Rightarrow> False)"

section \<open>The ledger\<close>

text \<open>
  The two collections are the React state arrays \<open>inventory\<close> and \<open>sales\<close> of the
  component \<open>App\<close>; a state update \<open>setInventory\<close>/\<open>setSales\<close> returns the new state.
\<close>

record state =
  inventory :: "jsval list"
  sales :: "jsval list"

text \<open>
  What a handler reports: \<open>Success\<close> is the success message; \<open>ValidationError\<close> is the
  error message of a rejected form or sale; \<open>FormatError\<close> is the error thrown by the
  structural check of a backup file; \<open>CaughtError\<close> is any other exception that the
  handler's own \<open>catch\<close> turns into an error message.
\<close>

datatype outcome = Success | ValidationError | FormatError | CaughtError

subsection \<open>calculateAmount\<close>

definition calculateAmount :: "jsval \<Rightarrow> jsval \<Rightarrow> jsval" where
  "calculateAmount quantity rate = toFixed2 (js_mul (parseFloat quantity) (parseFloat rate))"

subsection \<open>Sorting the sales by date\<close>

text \<open>
  The comparator \<open>(a, b) => new Date(b.saleDate) - new Date(a.saleDate)\<close>; a result of
  \<open>NaN\<close> counts as \<open>0\<close> in \<open>Array.prototype.sort\<close>.
\<close>

definition date_cmp :: "jsval \<Rightarrow> jsval \<Rightarrow> rat" where
  "date_cmp a b =
     (case js_sub (timeValue (getp b ''saleDate'')) (timeValue (getp a ''saleDate'')) of
        Num d \<Rightarrow> d
      | _ \<Rightarrow> 0)"

text \<open>
  \<open>sort\<close> is stable; where the comparator is consistent (every date valid) the result is
  the one sorted arrangement that keeps equal elements in their order, which the
  insertion below computes.  With an invalid date the language leaves the order to the
  implementation, and the insertion is one such order.
\<close>

fun insert_sale :: "jsval \<Rightarrow> jsval list \<Rightarrow> jsval list" where
  "insert_sale x [] = [x]"
| "insert_sale x (y # ys) = (if date_cmp x y \<le> 0 then x # y # ys else y # insert_sale x ys)"

definition sort_sales :: "jsval list \<Rightarrow> jsval list" where
  "sort_sales xs = foldr insert_sale xs []"

text \<open>
  The comparator reads \<open>a.saleDate\<close>, which throws a \<open>TypeError\<close> when \<open>a\<close> is \<open>null\<close>;
  it is called on every element as soon as there are two.  (\<open>undefined\<close> elements are
  not passed to a comparator, and do not come out of \<open>JSON.parse\<close>.)
\<close>

definition js_sort :: "jsval list \<Rightarrow> jsval list option" where
  "js_sort xs = (if 2 \<le> length xs \<and> Null \<in> set xs then None else Some (sort_sales xs))"

subsection \<open>StockEntryForm\<close>

definition initialState :: jsval where
  "initialState = Obj [(''id'', Str ''''), (''code'', Str ''''), (''group'', Str ''''),
                       (''name'', Str ''''), (''quantity'', Num 1), (''rate'', Num 0)]"

text \<open>\<open>handleChange\<close>: \<open>name\<close> and \<open>value\<close> are those of the input that changed.\<close>

definition handleChange :: "string \<Rightarrow> string \<Rightarrow> jsval \<Rightarrow> jsval" where
  "handleChange name value newItem =
     (if name = ''quantity'' \<or> name = ''rate'' then
        (let v1 = filter (\<lambda>c. is_digit c \<or> c = CHR ''.'') value;
             v2 = (if take 1 v1 = ''.'' then ''0'' @ v1 else v1)
         in if 1 < length (filter (\<lambda>c. c = CHR ''.'') v2) then newItem
            else Obj (put name (Str v2) (spread newItem [])))
      else Obj (put name (Str value) (spread newItem [])))"

text \<open>
  \<open>getNextSerialNo\<close>: the loop over the inventory keeps the largest serial number that
  \<open>parseInt\<close> reads and that exceeds the running maximum, which starts at \<open>0\<close>.
\<close>

definition serial_step :: "rat \<Rightarrow> jsval \<Rightarrow> rat" where
  "serial_step maxSerial item =
     (case parseInt10 (getp item ''serialNo'') of
        Num existingSerial \<Rightarrow> if existingSerial > maxSerial then existingSerial else maxSerial
      | _ \<Rightarrow> maxSerial)"

definition getNextSerialNo :: "jsval list \<Rightarrow> jsval" where
  "getNextSerialNo items = Str (int_text (foldl serial_step 0 items + 1))"

text \<open>
  The object literal \<open>itemToAdd\<close> of \<open>handleAddItem\<close>.  Its entries are evaluated left to
  right: \<open>id\<close>, \<open>serialNo\<close>, the spread of the form state, then \<open>quantity\<close>, \<open>rate\<close>,
  \<open>amount\<close> and \<open>dateAdded\<close>.
\<close>

definition itemToAdd :: "jsval \<Rightarrow> jsval \<Rightarrow> jsval \<Rightarrow> jsval \<Rightarrow> jsval \<Rightarrow> jsval \<Rightarrow> jsval \<Rightarrow> jsval" where
  "itemToAdd newId nextSerialNo newItem parsedQuantity parsedRate amount dateAdded =
     Obj (put ''dateAdded'' dateAdded (
          put ''amount'' amount (
          put ''rate'' parsedRate (
          put ''quantity'' parsedQuantity (
          spread newItem (
          put ''serialNo'' nextSerialNo (
          put ''id'' newId [])))))))"

text \<open>
  \<open>handleAddItem\<close>.  \<open>tId\<close> is the reading of \<open>Date.now()\<close> and \<open>tAdded\<close> the time of
  \<open>new Date()\<close>.  (The flag \<open>loading\<close> is set and reset within one call, so the guard
  on it never fires; the messages shown to the user are the \<open>outcome\<close>.)
\<close>

definition handleAddItem :: "jsval \<Rightarrow> nat \<Rightarrow> int \<Rightarrow> state \<Rightarrow> outcome \<times> state" where
  "handleAddItem newItem tId tAdded s =
     (let code = getp newItem ''code'';
          name = getp newItem ''name'';
          quantity = getp newItem ''quantity'';
          rate = getp newItem ''rate'';
          parsedQuantity = parseInt10 quantity;
          parsedRate = parseFloat rate
      in if \<not> truthy code \<or> \<not> truthy name \<or> js_le parsedQuantity (Num 0) \<or> js_le parsedRate (Num 0)
         then (ValidationError, s)
         else
           (let newId = Str (digits_of tId);
                amount = calculateAmount parsedQuantity parsedRate;
                nextSerialNo = getNextSerialNo (inventory s);
                item = itemToAdd newId nextSerialNo newItem parsedQuantity parsedRate
                         (parseFloat amount) (TimeStr tAdded)
            in (Success, s\<lparr>inventory := inventory s @ [item]\<rparr>)))"

subsection \<open>InventoryView\<close>

text \<open>
  \<open>saleQuantities\<close> is the object that maps a line's id to the quantity typed into its
  row; it is modelled as the lookup \<open>saleQuantities[id]\<close>, \<open>undefined\<close> where the object
  has no entry.
\<close>

type_synonym saleQuantities = "jsval \<Rightarrow> jsval"

definition handleSaleQuantityChange :: "jsval \<Rightarrow> string \<Rightarrow> saleQuantities \<Rightarrow> saleQuantities" where
  "handleSaleQuantityChange i value sq =
     (let p = parseInt_str value;
          q = (if truthy p then p else Num 0);
          qty = (case q of Num x \<Rightarrow> Num (max 0 x) | _ \<Rightarrow> NaN)
      in sq(i := qty))"

text \<open>
  \<open>handleRecordSale(item)\<close>.  \<open>tSale\<close> is the time of \<open>new Date()\<close>, \<open>tId\<close> the reading
  of \<open>Date.now()\<close>.  The result is \<open>None\<close> when the updater passed to \<open>setSales\<close> throws
  (a \<open>null\<close> among the sales), which no \<open>catch\<close> of the program handles.
\<close>

definition handleRecordSale ::
  "jsval \<Rightarrow> saleQuantities \<Rightarrow> int \<Rightarrow> nat \<Rightarrow> state \<Rightarrow> (outcome \<times> state) option" where
  "handleRecordSale item saleQuantities tSale tId s =
     (let q = saleQuantities (getp item ''id'');
          quantityToSell = (if truthy q then q else Num 0)
      in if js_le quantityToSell (Num 0) \<or> js_gt quantityToSell (getp item ''quantity'')
         then Some (ValidationError, s)
         else
           (let newRemainingQuantity = js_sub (getp item ''quantity'') quantityToSell;
                amountSold = calculateAmount quantityToSell (getp item ''rate'');
                saleDate = TimeStr tSale;
                inventory' =
                  (if js_gt newRemainingQuantity (Num 0)
                   then map (\<lambda>invItem.
                          if strict_eq (getp invItem ''id'') (getp item ''id'')
                          then Obj (put ''quantity'' newRemainingQuantity (spread invItem []))
                          else invItem) (inventory s)
                   else filter (\<lambda>invItem. \<not> strict_eq (getp invItem ''id'') (getp item ''id''))
                          (inventory s));
                newSale = Obj [
                  (''id'', Str (digits_of tId)),
                  (''inventoryId'', getp item ''id''),
                  (''serialNo'', getp item ''serialNo''),
                  (''code'', getp item ''code''),
                  (''group'', getp item ''group''),
                  (''name'', getp item ''name''),
                  (''rate'', getp item ''rate''),
                  (''quantitySold'', quantityToSell),
                  (''amountSold'', parseFloat amountSold),
                  (''saleDate'', saleDate)]
            in case js_sort (newSale # sales s) of
                 None \<Rightarrow> None
               | Some sortedSales \<Rightarrow>
                   Some (Success, s\<lparr>inventory := inventory', sales := sortedSales\<rparr>)))"

subsection \<open>SalesView\<close>

text \<open>\<open>handleDeleteRecords\<close>, after the confirmation; \<open>deleteType\<close> is \<open>null\<close> or a text.\<close>

definition handleDeleteRecords :: "string option \<Rightarrow> state \<Rightarrow> state" where
  "handleDeleteRecords deleteType s =
     (case deleteType of
        None \<Rightarrow> s
      | Some t \<Rightarrow> if t = ''sales'' then s\<lparr>sales := []\<rparr>
                  else if t = ''inventory'' then s\<lparr>inventory := []\<rparr>
                  else s)"

subsection \<open>DataManagement\<close>




text \<open>
  \<open>handleImportData\<close>, the \<open>onload\<close> callback.  The argument is what \<open>JSON.parse\<close> makes of
  the file: \<open>None\<close> when it throws a \<open>SyntaxError\<close>.  Reading a property of \<open>null\<close> throws
  too.  Every exception ends in the \<open>catch\<close>, after the state updates made so far.
\<close>

definition handleImportData :: "jsval option \<Rightarrow> state \<Rightarrow> outcome \<times> state" where
  "handleImportData content s =
     (case content of
        None \<Rightarrow> (CaughtError, s)
      | Some loadedData \<Rightarrow>
          if loadedData = Null \<or> loadedData = Undefined then (CaughtError, s)
          else if \<not> isArray (getp loadedData ''inventory'') \<or> \<not> isArray (getp loadedData ''sales'')
          then (FormatError, s)
          else
            (case (getp loadedData ''inventory'', getp loadedData ''sales'') of
               (Arr inv', Arr sales') \<Rightarrow>
                 (let s1 = s\<lparr>inventory := inv'\<rparr>
                  in case js_sort sales' of
                       None \<Rightarrow> (CaughtError, s1)
                     | Some loadedSales \<Rightarrow> (Success, s1\<lparr>sales := loadedSales\<rparr>))
             | _ \<Rightarrow> (FormatError, s)))"

subsection \<open>Initial load\<close>

text \<open>
  \<open>loadDataFromLocalStorage\<close>: a key that is missing or whose text does not parse
  (\<open>None\<close>) gives the empty array; otherwise the store holds an array, as the program
  itself has saved it.  The mount effect stores the inventory as read and the sales
  sorted; \<open>None\<close> is the uncaught \<open>TypeError\<close> of the comparator.
\<close>

definition loadDataFromLocalStorage :: "jsval list option \<Rightarrow> jsval list" where
  "loadDataFromLocalStorage item = (case item of None \<Rightarrow> [] | Some xs \<Rightarrow> xs)"

definition initialLoad :: "jsval list option \<Rightarrow> jsval list option \<Rightarrow> state option" where
  "initialLoad storedInventory storedSales =
     (case js_sort (loadDataFromLocalStorage storedSales) of
        None \<Rightarrow> None
      | Some loadedSales \<Rightarrow>
          Some \<lparr>inventory = loadDataFromLocalStorage storedInventory, sales = loadedSales\<rparr>)"

section \<open>Runs of the program\<close>

text \<open>
  The form state after a run of change events, from the initial one.  The inputs of the
  form are named \<open>code\<close>, \<open>group\<close>, \<open>name\<close>, \<open>quantity\<close> and \<open>rate\<close>.
\<close>

definition form_inputs :: "string list" where
  "form_inputs = [''code'', ''group'', ''name'', ''quantity'', ''rate'']"

definition form_after :: "(string \<times> string) list \<Rightarrow> jsval" where
  "form_after evs = foldl (\<lambda>f (name, value). handleChange name value f) initialState evs"

text \<open>The user's operations on the ledger, and one step of the ledger under each.\<close>

datatype op =
    AddStock jsval nat int
  | RecordSale jsval saleQuantities int nat
  | DeleteRecords "string option"
  | Import "jsval option"

fun step :: "op \<Rightarrow> state \<Rightarrow> state option" where
  "step (AddStock newItem tId tAdded) s = Some (snd (handleAddItem newItem tId tAdded s))"
| "step (RecordSale item sq tSale tId) s = map_option snd (handleRecordSale item sq tSale tId s)"
| "step (DeleteRecords deleteType) s = Some (handleDeleteRecords deleteType s)"
| "step (Import content) s = Some (snd (handleImportData content s))"


section \<open>Notions of the specification\<close>

text \<open>A line has a positive quantity when its \<open>quantity\<close> is a number above zero.\<close>

definition positive_quantity :: "jsval \<Rightarrow> bool" where
  "positive_quantity line = (case getp line ''quantity'' of Num q \<Rightarrow> 0 < q | _ \<Rightarrow> False)"

text \<open>The time of a sale record, if its \<open>saleDate\<close> is a valid date.\<close>

definition sale_time :: "jsval \<Rightarrow> rat option" where
  "sale_time sale = (case timeValue (getp sale ''saleDate'') of Num t \<Rightarrow> Some t | _ \<Rightarrow> None)"

text \<open>
  \<open>a\<close> may stand before \<open>b\<close> in a newest-first list: both dates are valid and \<open>a\<close>'s is
  not the earlier one.
\<close>

definition not_older :: "jsval \<Rightarrow> jsval \<Rightarrow> bool" where
  "not_older a b =
     (case (sale_time a, sale_time b) of (Some x, Some y) \<Rightarrow> y \<le> x | _ \<Rightarrow> False)"

definition newest_first :: "jsval list \<Rightarrow> bool" where
  "newest_first xs = sorted_wrt not_older xs"



text \<open>
  The preconditions of AddStock as the specification words them: \<open>code\<close> non-empty, \<open>name\<close>
  non-empty, \<open>quantity\<close> a positive integer, \<open>rate\<close> positive.  The number that a form
  field stands for is the one \<open>Number\<close> reads from it.
\<close>

definition positive_integer :: "jsval \<Rightarrow> bool" where
  "positive_integer v = (case toNumber v of Num x \<Rightarrow> 0 < x \<and> of_int \<lfloor>x\<rfloor> = x | _ \<Rightarrow> False)"

definition positive_number :: "jsval \<Rightarrow> bool" where
  "positive_number v = (case toNumber v of Num x \<Rightarrow> 0 < x | _ \<Rightarrow> False)"

definition AddStock_precondition :: "jsval \<Rightarrow> bool" where
  "AddStock_precondition newItem =
     (truthy (getp newItem ''code'') \<and> truthy (getp newItem ''name'') \<and>
      positive_integer (getp newItem ''quantity'') \<and> positive_number (getp newItem ''rate''))"

section \<open>Concrete inputs\<close>

text \<open>
  The scenario of the specification: on the empty ledger, the form is filled in with code
  \<open>C1\<close>, group \<open>Case\<close>, name \<open>Basic Case\<close>, quantity \<open>10\<close> and rate \<open>5.00\<close>.
  \<open>basic_line\<close> is the line that \<open>handleAddItem\<close> stores for it, with its serial number,
  its quantity and its date.
\<close>

definition empty_ledger :: state where
  "empty_ledger = \<lparr>inventory = [], sales = []\<rparr>"

definition basic_case_events :: "(string \<times> string) list" where
  "basic_case_events = [(''code'', ''C1''), (''group'', ''Case''), (''name'', ''Basic Case''),
                        (''quantity'', ''10''), (''rate'', ''5.00'')]"

definition basic_line :: "string \<Rightarrow> rat \<Rightarrow> int \<Rightarrow> jsval" where
  "basic_line serial qty t =
     Obj [(''id'', Str ''''), (''serialNo'', Str serial), (''code'', Str ''C1''),
          (''group'', Str ''Case''), (''name'', Str ''Basic Case''), (''quantity'', Num qty),
          (''rate'', Num 5), (''amount'', Num 50), (''dateAdded'', TimeStr t)]"

text \<open>The sale record that \<open>handleRecordSale\<close> stores for a sale from such a line.\<close>

definition basic_sale :: "string \<Rightarrow> rat \<Rightarrow> rat \<Rightarrow> int \<Rightarrow> nat \<Rightarrow> jsval" where
  "basic_sale serial qty amount tSale tId =
     Obj [(''id'', Str (digits_of tId)), (''inventoryId'', Str ''''), (''serialNo'', Str serial),
          (''code'', Str ''C1''), (''group'', Str ''Case''), (''name'', Str ''Basic Case''),
          (''rate'', Num 5), (''quantitySold'', Num qty), (''amountSold'', Num amount),
          (''saleDate'', TimeStr tSale)]"

text \<open>
  A form state is accepted when \<open>handleAddItem\<close> does not reject it; the check reads the
  form state only, so the clock readings and the ledger chosen here play no part.
\<close>

definition accepted :: "jsval \<Rightarrow> bool" where
  "accepted newItem = (fst (handleAddItem newItem 0 0 empty_ledger) = Success)"

section \<open>Properties\<close>

subsection \<open>Objects\<close>

lemma map_of_put: "map_of (put k v ps) = (map_of ps)(k \<mapsto> v)"
  by (induction ps) (auto simp: fun_eq_iff)

lemma keys_put: "fst ` set (put k v ps) = insert k (fst ` set ps)"
proof -
  have "dom (map_of (put k v ps)) = insert k (dom (map_of ps))"
    by (simp add: map_of_put)
  then show ?thesis by (simp add: dom_map_of_conv_image_fst)
qed

lemma distinct_put: "distinct (map fst ps) \<Longrightarrow> distinct (map fst (put k v ps))"
  by (induction ps) (auto simp: keys_put)

lemma map_of_foldl_put:
  "distinct (map fst ps) \<Longrightarrow>
   map_of (foldl (\<lambda>a (k, v). put k v a) acc ps) = map_of acc ++ map_of ps"
proof (induction ps arbitrary: acc)
  case Nil
  then show ?case by simp
next
  case (Cons p ps)
  obtain k v where p: "p = (k, v)" by (cases p)
  from Cons.prems p have notin: "map_of ps k = None" and d: "distinct (map fst ps)"
    by (auto simp: map_of_eq_None_iff)
  have "map_of (foldl (\<lambda>a (k, v). put k v a) acc (p # ps)) = map_of (put k v acc) ++ map_of ps"
    using Cons.IH [OF d] p by simp
  also have "\<dots> = map_of acc ++ map_of (p # ps)"
    using notin p by (auto simp: map_of_put fun_eq_iff map_add_def split: option.splits)
  finally show ?case .
qed

lemma distinct_foldl_put:
  "distinct (map fst acc) \<Longrightarrow> distinct (map fst (foldl (\<lambda>a (k, v). put k v a) acc ps))"
  by (induction ps arbitrary: acc) (auto simp: distinct_put)

subsection \<open>The stock form\<close>

lemma handleChange_form:
  assumes n: "name \<in> set form_inputs"
    and f: "f = Obj ps" "distinct (map fst ps)" "map_of ps ''id'' = Some (Str '''')"
           "map_of ps ''serialNo'' = None"
  shows "\<exists>qs. handleChange name value f = Obj qs \<and> distinct (map fst qs) \<and>
           map_of qs ''id'' = Some (Str '''') \<and> map_of qs ''serialNo'' = None"
proof -
  let ?sp = "foldl (\<lambda>a (k, v). put k v a) [] ps"
  have sp: "map_of ?sp = map_of ps" "distinct (map fst ?sp)"
    using f(2) by (simp_all add: map_of_foldl_put distinct_foldl_put)
  have ne: "name \<noteq> ''id''" "name \<noteq> ''serialNo''"
    using n by (auto simp: form_inputs_def)
  have "\<And>w. map_of (put name w ?sp) ''id'' = Some (Str '''') \<and>
             map_of (put name w ?sp) ''serialNo'' = None \<and> distinct (map fst (put name w ?sp))"
    using sp ne f(3,4) by (simp add: map_of_put distinct_put)
  then show ?thesis
    using f by (auto simp: handleChange_def Let_def)
qed

lemma form_after_form:
  assumes "set (map fst evs) \<subseteq> set form_inputs"
  shows "\<exists>ps. form_after evs = Obj ps \<and> distinct (map fst ps) \<and>
           map_of ps ''id'' = Some (Str '''') \<and> map_of ps ''serialNo'' = None"
  using assms
proof (induction evs rule: rev_induct)
  case Nil
  then show ?case by (simp add: form_after_def initialState_def)
next
  case (snoc e evs)
  obtain n v where e: "e = (n, v)" by (cases e)
  from snoc.prems e have n: "n \<in> set form_inputs" and rest: "set (map fst evs) \<subseteq> set form_inputs"
    by auto
  from snoc.IH [OF rest] obtain ps where ps: "form_after evs = Obj ps" "distinct (map fst ps)"
    "map_of ps ''id'' = Some (Str '''')" "map_of ps ''serialNo'' = None" by blast
  have "form_after (evs @ [e]) = handleChange n v (form_after evs)"
    by (simp add: form_after_def e)
  then show ?case using handleChange_form [OF n ps] by simp
qed

lemma added_line:
  assumes "handleAddItem newItem tId tAdded s = (Success, s')"
  shows "s' = s\<lparr>inventory := inventory s @
            [itemToAdd (Str (digits_of tId)) (getNextSerialNo (inventory s)) newItem
               (parseInt10 (getp newItem ''quantity'')) (parseFloat (getp newItem ''rate''))
               (parseFloat (calculateAmount (parseInt10 (getp newItem ''quantity''))
                                            (parseFloat (getp newItem ''rate''))))
               (TimeStr tAdded)]\<rparr>"
  using assms by (simp add: handleAddItem_def Let_def split: if_splits)

lemma itemToAdd_fields:
  assumes f: "newItem = Obj ps" "distinct (map fst ps)" "map_of ps ''id'' = Some i"
           "map_of ps ''serialNo'' = None"
  shows "getp (itemToAdd j n newItem q r a d) ''id'' = i"
    "getp (itemToAdd j n newItem q r a d) ''serialNo'' = n"
    "getp (itemToAdd j n newItem q r a d) ''quantity'' = q"
    "getp (itemToAdd j n newItem q r a d) ''rate'' = r"
    "getp (itemToAdd j n newItem q r a d) ''amount'' = a"
  using f by (simp_all add: itemToAdd_def map_of_put map_of_foldl_put map_add_def)

subsection \<open>Evaluation on concrete inputs\<close>

lemma floor_rat_numeral_div: "\<lfloor>(numeral a :: rat) / numeral b\<rfloor> = numeral a div numeral b"
  using floor_divide_of_int_eq [where ?'a = rat, of "numeral a" "numeral b"] by simp

lemmas digits_eval =
  digits_of.simps [of "numeral k"] digits_of.simps [of 0] digits_of.simps [of "Suc 0"]
  digit_char_def for k

lemmas parse_eval =
  parseInt_str_def parseFloat_str_def is_ws_def is_digit_def nat_of_digits_def digit_val_def

lemmas add_eval =
  handleAddItem_def itemToAdd_def getNextSerialNo_def serial_step_def calculateAmount_def
  js_le_def js_gt_def js_mul_def js_sub_def int_text_def trunc_def hundredths_def
  floor_rat_numeral_div

subsection \<open>C1: identifiers of inventory lines\<close>

text \<open>
  C1 (the claim: every line created by AddStock carries a fresh unique id, so two lines
  created by distinct calls have different ids).  The code does otherwise.  Whatever the
  inputs of the form hold and whatever the clock reads, a line that \<open>handleAddItem\<close>
  appends carries the \<open>id\<close> of the form state, the empty text, which no input of the form
  changes: the spread \<open>...newItem\<close> comes after \<open>id: newId\<close> in the object literal and
  overwrites it.  Every line has the same id.
\<close>

theorem C1_added_line_id_is_empty:
  assumes evs: "set (map fst evs) \<subseteq> set form_inputs"
    and ok: "handleAddItem (form_after evs) tId tAdded s = (Success, s')"
  shows "inventory s' \<noteq> [] \<and> butlast (inventory s') = inventory s \<and>
         getp (last (inventory s')) ''id'' = Str ''''"
proof -
  from form_after_form [OF evs] obtain ps where ps: "form_after evs = Obj ps"
    "distinct (map fst ps)" "map_of ps ''id'' = Some (Str '''')" "map_of ps ''serialNo'' = None"
    by blast
  show ?thesis
    using added_line [OF ok] itemToAdd_fields(1) [OF ps] by simp
qed

lemma form_basic_case:
  "form_after basic_case_events =
   Obj [(''id'', Str ''''), (''code'', Str ''C1''), (''group'', Str ''Case''),
        (''name'', Str ''Basic Case''), (''quantity'', Str ''10''), (''rate'', Str ''5.00'')]"
  by (simp add: basic_case_events_def form_after_def handleChange_def initialState_def is_digit_def)

lemma add_basic_case_first:
  "handleAddItem (form_after basic_case_events) 1700000000000 1700000000000 empty_ledger =
   (Success, \<lparr>inventory = [basic_line ''1'' 10 1700000000000], sales = []\<rparr>)"
  by (simp add: form_basic_case empty_ledger_def basic_line_def add_eval parse_eval digits_eval)

lemma add_basic_case_second:
  "handleAddItem (form_after basic_case_events) 1700000060000 1700000060000
     \<lparr>inventory = [basic_line ''1'' 10 1700000000000], sales = []\<rparr> =
   (Success, \<lparr>inventory = [basic_line ''1'' 10 1700000000000,
                            basic_line ''2'' 10 1700000060000], sales = []\<rparr>)"
  by (simp add: form_basic_case basic_line_def add_eval parse_eval digits_eval Let_def)

text \<open>
  The form is submitted twice, a minute apart, on the empty ledger; both submissions
  succeed, and the two lines of the inventory have the same \<open>id\<close>.
\<close>

theorem C1_two_added_lines_share_id:
  "set (map fst basic_case_events) \<subseteq> set form_inputs \<and>
   handleAddItem (form_after basic_case_events) 1700000000000 1700000000000 empty_ledger =
     (Success, \<lparr>inventory = [basic_line ''1'' 10 1700000000000], sales = []\<rparr>) \<and>
   handleAddItem (form_after basic_case_events) 1700000060000 1700000060000
       \<lparr>inventory = [basic_line ''1'' 10 1700000000000], sales = []\<rparr> =
     (Success, \<lparr>inventory = [basic_line ''1'' 10 1700000000000,
                              basic_line ''2'' 10 1700000060000], sales = []\<rparr>) \<and>
   getp (basic_line ''1'' 10 1700000000000) ''id'' = Str '''' \<and>
   getp (basic_line ''2'' 10 1700000060000) ''id'' = Str ''''"
proof -
  have evs: "set (map fst basic_case_events) \<subseteq> set form_inputs"
    by (simp add: basic_case_events_def form_inputs_def)
  show ?thesis
    using evs add_basic_case_first add_basic_case_second
      C1_added_line_id_is_empty [OF evs add_basic_case_first]
      C1_added_line_id_is_empty [OF evs add_basic_case_second]
    by simp
qed

subsection \<open>What a sale does to the inventory\<close>

lemma sale_inventory:
  assumes "handleRecordSale item sq tSale tId s = Some (Success, s')"
  shows "inventory s' =
     (let q = sq (getp item ''id'');
          r = js_sub (getp item ''quantity'') (if truthy q then q else Num 0)
      in if js_gt r (Num 0)
         then map (\<lambda>l. if strict_eq (getp l ''id'') (getp item ''id'')
                         then Obj (put ''quantity'' r (spread l [])) else l) (inventory s)
         else filter (\<lambda>l. \<not> strict_eq (getp l ''id'') (getp item ''id'')) (inventory s))"
  using assms
  by (auto simp: handleRecordSale_def Let_def split: if_splits option.splits)

text \<open>
  Where the ids of the inventory are pairwise different, the sale does touch one line
  only: the line sold from is updated or removed, the others stay.
\<close>

lemma sale_frame_distinct_ids:
  assumes ok: "handleRecordSale item sq tSale tId s = Some (Success, s')"
    and self: "strict_eq (getp item ''id'') (getp item ''id'')"
    and others: "\<forall>l \<in> set (inventory s). l \<noteq> item \<longrightarrow> \<not> strict_eq (getp l ''id'') (getp item ''id'')"
  shows "inventory s' =
     (let q = sq (getp item ''id'');
          r = js_sub (getp item ''quantity'') (if truthy q then q else Num 0)
      in if js_gt r (Num 0)
         then map (\<lambda>l. if l = item then Obj (put ''quantity'' r (spread l [])) else l) (inventory s)
         else filter (\<lambda>l. l \<noteq> item) (inventory s))"
proof -
  have eq: "\<And>l. l \<in> set (inventory s) \<Longrightarrow>
              strict_eq (getp l ''id'') (getp item ''id'') = (l = item)"
    using self others by auto
  show ?thesis
    unfolding sale_inventory [OF ok] Let_def
    using eq by (auto intro!: map_cong filter_cong)
qed

subsection \<open>C2: the lines that a sale touches\<close>

lemmas sale_eval =
  handleRecordSale_def handleSaleQuantityChange_def strict_eq_def js_sort_def sort_sales_def
  date_cmp_def calculateAmount_def js_le_def js_gt_def js_mul_def js_sub_def hundredths_def
  floor_rat_numeral_div

text \<open>
  C2 (the claim: a successful sale affects only the one line it is recorded against, and
  every other line stays as it was).  The code does otherwise on the ledgers it builds
  itself.  After the two submissions of the form above the inventory holds two lines,
  serial numbers 1 and 2, with the same \<open>id\<close>.  Selling 4 of the first line sets the
  quantity of both lines to 6; selling all 10 of the first line removes both lines.
\<close>

theorem C2_sale_changes_the_other_line:
  "handleRecordSale (basic_line ''1'' 10 1700000000000)
     (handleSaleQuantityChange (Str '''') ''4'' (\<lambda>i. Undefined)) 1700000120000 1700000120000
     \<lparr>inventory = [basic_line ''1'' 10 1700000000000, basic_line ''2'' 10 1700000060000],
      sales = []\<rparr> =
   Some (Success,
     \<lparr>inventory = [basic_line ''1'' 6 1700000000000, basic_line ''2'' 6 1700000060000],
      sales = [Obj [(''id'', Str ''1700000120000''), (''inventoryId'', Str ''''),
                    (''serialNo'', Str ''1''), (''code'', Str ''C1''), (''group'', Str ''Case''),
                    (''name'', Str ''Basic Case''), (''rate'', Num 5), (''quantitySold'', Num 4),
                    (''amountSold'', Num 20), (''saleDate'', TimeStr 1700000120000)]]\<rparr>) \<and>
   handleRecordSale (basic_line ''1'' 10 1700000000000)
     (handleSaleQuantityChange (Str '''') ''10'' (\<lambda>i. Undefined)) 1700000120000 1700000120000
     \<lparr>inventory = [basic_line ''1'' 10 1700000000000, basic_line ''2'' 10 1700000060000],
      sales = []\<rparr> =
   Some (Success,
     \<lparr>inventory = [],
      sales = [Obj [(''id'', Str ''1700000120000''), (''inventoryId'', Str ''''),
                    (''serialNo'', Str ''1''), (''code'', Str ''C1''), (''group'', Str ''Case''),
                    (''name'', Str ''Basic Case''), (''rate'', Num 5), (''quantitySold'', Num 10),
                    (''amountSold'', Num 50), (''saleDate'', TimeStr 1700000120000)]]\<rparr>)"
  by (simp add: basic_line_def sale_eval parse_eval digits_eval Let_def)

subsection \<open>C8: validation of a sale\<close>

text \<open>The quantity typed into a row is stored as a whole number, never negative.\<close>

lemma parseInt_str_int: "parseInt_str v = NaN \<or> (\<exists>k::int. parseInt_str v = Num (of_int k))"
proof (cases "take_sign (dropWhile is_ws v)")
  case (Pair sg r)
  have "sg = 1 \<or> sg = - 1"
    using Pair by (cases "dropWhile is_ws v") (auto split: if_splits)
  then show ?thesis
  proof
    assume "sg = 1"
    then have "parseInt_str v = NaN \<or>
        parseInt_str v = Num (of_int (int (nat_of_digits (takeWhile is_digit r))))"
      using Pair by (simp add: parseInt_str_def Let_def)
    then show ?thesis by blast
  next
    assume "sg = - 1"
    then have "parseInt_str v = NaN \<or>
        parseInt_str v = Num (of_int (- int (nat_of_digits (takeWhile is_digit r))))"
      using Pair by (simp add: parseInt_str_def Let_def)
    then show ?thesis by blast
  qed
qed

lemma typed_quantity:
  "\<exists>k::int. 0 \<le> k \<and> handleSaleQuantityChange i v sq i = Num (of_int k)"
proof -
  from parseInt_str_int [of v] show ?thesis
  proof
    assume "parseInt_str v = NaN"
    then have "handleSaleQuantityChange i v sq i = Num (of_int 0)"
      by (simp add: handleSaleQuantityChange_def)
    then show ?thesis by blast
  next
    assume "\<exists>k::int. parseInt_str v = Num (of_int k)"
    then obtain k :: int where k: "parseInt_str v = Num (of_int k)" by blast
    have "handleSaleQuantityChange i v sq i = Num (of_int (max 0 k))"
      using k by (simp add: handleSaleQuantityChange_def Let_def max_def)
    then show ?thesis by (metis max.cobounded1)
  qed
qed




subsection \<open>C7: validation of the stock form\<close>

lemma itemToAdd_quantity: "getp (itemToAdd j n newItem q r a d) ''quantity'' = q"
  by (simp add: itemToAdd_def map_of_put)

lemma itemToAdd_rate: "getp (itemToAdd j n newItem q r a d) ''rate'' = r"
  by (simp add: itemToAdd_def map_of_put)


text \<open>
  C7 as the claim states it fails: with quantity \<open>2.5\<close>, which is not a positive integer,
  the form is accepted (\<open>parseInt\<close> reads \<open>2\<close>) and a line is appended.
\<close>

theorem C7_fractional_quantity_accepted:
  "\<not> AddStock_precondition (handleChange ''quantity'' ''2.5'' (form_after basic_case_events)) \<and>
   handleAddItem (handleChange ''quantity'' ''2.5'' (form_after basic_case_events))
       1700000000000 1700000000000 empty_ledger \<noteq> (ValidationError, empty_ledger) \<and>
   fst (handleAddItem (handleChange ''quantity'' ''2.5'' (form_after basic_case_events))
       1700000000000 1700000000000 empty_ledger) = Success \<and>
   map (\<lambda>line. getp line ''quantity'')
     (inventory (snd (handleAddItem (handleChange ''quantity'' ''2.5'' (form_after basic_case_events))
       1700000000000 1700000000000 empty_ledger))) = [Num 2]"
proof -
  have f: "handleChange ''quantity'' ''2.5'' (form_after basic_case_events) =
     Obj [(''id'', Str ''''), (''code'', Str ''C1''), (''group'', Str ''Case''),
          (''name'', Str ''Basic Case''), (''quantity'', Str ''2.5''), (''rate'', Str ''5.00'')]"
    by (simp add: form_basic_case handleChange_def is_digit_def)
  have pre: "\<not> AddStock_precondition (handleChange ''quantity'' ''2.5'' (form_after basic_case_events))"
    unfolding f
    by (simp add: AddStock_precondition_def positive_integer_def number_of_str_def parse_eval
        floor_rat_numeral_div)
  have run: "handleAddItem (handleChange ''quantity'' ''2.5'' (form_after basic_case_events))
       1700000000000 1700000000000 empty_ledger =
     (Success, \<lparr>inventory = [Obj [(''id'', Str ''''), (''serialNo'', Str ''1''), (''code'', Str ''C1''),
          (''group'', Str ''Case''), (''name'', Str ''Basic Case''), (''quantity'', Num 2),
          (''rate'', Num 5), (''amount'', Num 10), (''dateAdded'', TimeStr 1700000000000)]],
        sales = []\<rparr>)"
    unfolding f
    by (simp add: empty_ledger_def add_eval parse_eval digits_eval Let_def)
  show ?thesis
    using pre by (simp add: run)
qed

text \<open>
  C7, amended.  The form is judged on what \<open>parseInt\<close> reads from \<open>quantity\<close> and
  \<open>parseFloat\<close> from \<open>rate\<close>, here the numbers \<open>q\<close> and \<open>r\<close>.  When \<open>code\<close> or \<open>name\<close> is
  empty, or \<open>q \<le> 0\<close>, or \<open>r \<le> 0\<close>, the form is rejected with the validation message and
  the ledger is unchanged.  Otherwise the submission succeeds and appends one line, with
  quantity \<open>q\<close> and rate \<open>r\<close>, to the inventory; the sales are unchanged.
\<close>

theorem C7_form_validation:
  assumes q: "parseInt10 (getp newItem ''quantity'') = Num q"
    and r: "parseFloat (getp newItem ''rate'') = Num r"
  shows "(\<not> truthy (getp newItem ''code'') \<or> \<not> truthy (getp newItem ''name'') \<or> q \<le> 0 \<or> r \<le> 0 \<longrightarrow>
            handleAddItem newItem tId tAdded s = (ValidationError, s)) \<and>
         (truthy (getp newItem ''code'') \<and> truthy (getp newItem ''name'') \<and> 0 < q \<and> 0 < r \<longrightarrow>
            (\<exists>line. handleAddItem newItem tId tAdded s = (Success, s\<lparr>inventory := inventory s @ [line]\<rparr>) \<and>
                   getp line ''quantity'' = Num q \<and> getp line ''rate'' = Num r))"
proof -
  have le: "js_le (Num q) (Num 0) = (q \<le> 0)" "js_le (Num r) (Num 0) = (r \<le> 0)"
    by (simp_all add: js_le_def)
  show ?thesis
  proof (intro conjI impI)
    assume "\<not> truthy (getp newItem ''code'') \<or> \<not> truthy (getp newItem ''name'') \<or> q \<le> 0 \<or> r \<le> 0"
    then show "handleAddItem newItem tId tAdded s = (ValidationError, s)"
      using q r le by (auto simp: handleAddItem_def Let_def)
  next
    assume ok: "truthy (getp newItem ''code'') \<and> truthy (getp newItem ''name'') \<and> 0 < q \<and> 0 < r"
    let ?line = "itemToAdd (Str (digits_of tId)) (getNextSerialNo (inventory s)) newItem (Num q) (Num r)
                   (parseFloat (calculateAmount (Num q) (Num r))) (TimeStr tAdded)"
    have "handleAddItem newItem tId tAdded s = (Success, s\<lparr>inventory := inventory s @ [?line]\<rparr>)"
      using ok q r le by (simp add: handleAddItem_def Let_def)
    moreover have "getp ?line ''quantity'' = Num q" "getp ?line ''rate'' = Num r"
      by (simp_all add: itemToAdd_quantity itemToAdd_rate)
    ultimately show "\<exists>line. handleAddItem newItem tId tAdded s = (Success, s\<lparr>inventory := inventory s @ [line]\<rparr>) \<and>
                   getp line ''quantity'' = Num q \<and> getp line ''rate'' = Num r"
      by blast
  qed
qed

text \<open>
  The form of the scenario is accepted; with the quantity changed to \<open>0\<close> it is rejected
  and the ledger stays empty.
\<close>

theorem C7_form_validation_witness:
  "parseInt10 (getp (form_after basic_case_events) ''quantity'') = Num 10 \<and>
   parseFloat (getp (form_after basic_case_events) ''rate'') = Num 5 \<and>
   (\<exists>line. handleAddItem (form_after basic_case_events) 1700000000000 1700000000000 empty_ledger =
             (Success, empty_ledger\<lparr>inventory := inventory empty_ledger @ [line]\<rparr>) \<and>
           getp line ''quantity'' = Num 10 \<and> getp line ''rate'' = Num 5) \<and>
   parseInt10 (getp (handleChange ''quantity'' ''0'' (form_after basic_case_events)) ''quantity'') = Num 0 \<and>
   handleAddItem (handleChange ''quantity'' ''0'' (form_after basic_case_events))
       1700000000000 1700000000000 empty_ledger = (ValidationError, empty_ledger)"
proof -
  let ?f = "form_after basic_case_events"
  let ?g = "handleChange ''quantity'' ''0'' (form_after basic_case_events)"
  have g: "?g = Obj [(''id'', Str ''''), (''code'', Str ''C1''), (''group'', Str ''Case''),
          (''name'', Str ''Basic Case''), (''quantity'', Str ''0''), (''rate'', Str ''5.00'')]"
    by (simp add: form_basic_case handleChange_def is_digit_def Let_def)
  have q: "parseInt10 (getp ?f ''quantity'') = Num 10"
    by (simp add: form_basic_case parse_eval)
  have r: "parseFloat (getp ?f ''rate'') = Num 5"
    by (simp add: form_basic_case parse_eval)
  have q0: "parseInt10 (getp ?g ''quantity'') = Num 0"
    by (simp add: g parse_eval)
  have r0: "parseFloat (getp ?g ''rate'') = Num 5"
    by (simp add: g parse_eval)
  have t: "truthy (getp ?f ''code'')" "truthy (getp ?f ''name'')"
    by (simp_all add: form_basic_case)
  show ?thesis
    using q r q0 t
      C7_form_validation [OF q r, of 1700000000000 1700000000000 empty_ledger]
      C7_form_validation [OF q0 r0, of 1700000000000 1700000000000 empty_ledger]
    by simp
qed

subsection \<open>Decimal text of a natural number\<close>










subsection \<open>The next serial number\<close>






lemma handleAddItem_accepted:
  "handleAddItem newItem tId tAdded s =
     (if accepted newItem
      then (Success, s\<lparr>inventory := inventory s @
              [itemToAdd (Str (digits_of tId)) (getNextSerialNo (inventory s)) newItem
                 (parseInt10 (getp newItem ''quantity'')) (parseFloat (getp newItem ''rate''))
                 (parseFloat (calculateAmount (parseInt10 (getp newItem ''quantity''))
                                              (parseFloat (getp newItem ''rate''))))
                 (TimeStr tAdded)]\<rparr>)
      else (ValidationError, s))"
  by (simp add: accepted_def handleAddItem_def Let_def)





subsection \<open>C4: serial numbers\<close>




subsection \<open>C3: positive quantities\<close>

lemma parseInt10_cases: "parseInt10 v = NaN \<or> (\<exists>x. parseInt10 v = Num x)"
proof (induction v rule: parseInt10.induct)
  case (1 s)
  then show ?case using parseInt_str_int [of s] by auto
qed auto

lemma js_sub_cases: "js_sub a b = NaN \<or> (\<exists>x. js_sub a b = Num x)"
  by (auto simp: js_sub_def split: jsval.splits)

lemma js_gt_zero: "js_gt r (Num 0) \<Longrightarrow> r = Num x \<Longrightarrow> 0 < x"
  by (simp add: js_gt_def)

lemma positive_quantity_put:
  "positive_quantity (Obj (put ''quantity'' (Num x) ps)) = (0 < x)"
  by (simp add: positive_quantity_def map_of_put)

lemma add_keeps_positive:
  assumes inv: "\<forall>line \<in> set (inventory s). positive_quantity line"
    and num: "parseInt10 (getp newItem ''quantity'') \<noteq> NaN"
  shows "\<forall>line \<in> set (inventory (snd (handleAddItem newItem tId tAdded s))). positive_quantity line"
proof (cases "accepted newItem")
  case True
  from num parseInt10_cases [of "getp newItem ''quantity''"]
  obtain x where x: "parseInt10 (getp newItem ''quantity'') = Num x" by blast
  from True have "\<not> js_le (Num x) (Num 0)"
    by (auto simp: accepted_def handleAddItem_def Let_def x split: if_splits)
  then have "0 < x" by (simp add: js_le_def)
  then have "positive_quantity (itemToAdd j n newItem (Num x) r a d)" for j n r a d
    by (simp add: positive_quantity_def itemToAdd_quantity)
  then show ?thesis
    using inv True x by (simp add: handleAddItem_accepted)
next
  case False
  then show ?thesis using inv by (simp add: handleAddItem_accepted)
qed

lemma sale_keeps_positive:
  assumes inv: "\<forall>line \<in> set (inventory s). positive_quantity line"
    and st: "handleRecordSale item sq tSale tId s = Some (out, s')"
  shows "\<forall>line \<in> set (inventory s'). positive_quantity line"
proof (cases "out = Success")
  case True
  let ?r = "js_sub (getp item ''quantity'') (if truthy (sq (getp item ''id'')) then sq (getp item ''id'') else Num 0)"
  from st True have inv': "inventory s' =
     (if js_gt ?r (Num 0)
      then map (\<lambda>l. if strict_eq (getp l ''id'') (getp item ''id'')
                      then Obj (put ''quantity'' ?r (spread l [])) else l) (inventory s)
      else filter (\<lambda>l. \<not> strict_eq (getp l ''id'') (getp item ''id'')) (inventory s))"
    using sale_inventory [of item sq tSale tId s s'] by (simp add: Let_def)
  show ?thesis
  proof (cases "js_gt ?r (Num 0)")
    case gt: True
    from gt js_sub_cases [of "getp item ''quantity''" "if truthy (sq (getp item ''id'')) then sq (getp item ''id'') else Num 0"]
    obtain x where x: "?r = Num x" by (auto simp: js_gt_def)
    with gt have "0 < x" by (simp add: js_gt_def)
    then have "positive_quantity (Obj (put ''quantity'' ?r ps))" for ps
      by (simp only: x positive_quantity_put)
    then show ?thesis
      using inv gt by (auto simp: inv')
  next
    case False
    then show ?thesis using inv by (simp add: inv')
  qed
next
  case False
  with st have "s' = s"
    by (auto simp: handleRecordSale_def Let_def split: if_splits option.splits)
  then show ?thesis using inv by simp
qed

subsection \<open>The scenario of the specification\<close>

text \<open>Of the 10 pieces of the line, 4 are sold, then the remaining 6.\<close>

lemma sell_four:
  "handleRecordSale (basic_line ''1'' 10 1700000000000)
     (handleSaleQuantityChange (Str '''') ''4'' (\<lambda>i. Undefined)) 1700000120000 1700000120000
     \<lparr>inventory = [basic_line ''1'' 10 1700000000000], sales = []\<rparr> =
   Some (Success,
     \<lparr>inventory = [basic_line ''1'' 6 1700000000000],
      sales = [basic_sale ''1'' 4 20 1700000120000 1700000120000]\<rparr>)"
  by (simp add: basic_line_def basic_sale_def sale_eval parse_eval digits_eval Let_def)

lemma sell_six:
  "handleRecordSale (basic_line ''1'' 6 1700000000000)
     (handleSaleQuantityChange (Str '''') ''6'' (\<lambda>i. Undefined)) 1700000180000 1700000180000
     \<lparr>inventory = [basic_line ''1'' 6 1700000000000],
      sales = [basic_sale ''1'' 4 20 1700000120000 1700000120000]\<rparr> =
   Some (Success,
     \<lparr>inventory = [],
      sales = [basic_sale ''1'' 6 30 1700000180000 1700000180000,
               basic_sale ''1'' 4 20 1700000120000 1700000120000]\<rparr>)"
  by (simp add: basic_line_def basic_sale_def sale_eval parse_eval digits_eval Let_def)

subsection \<open>C3: the theorem\<close>

lemma import_inventory:
  "inventory (snd (handleImportData content s)) = inventory s \<or>
   (\<exists>loadedData. content = Some loadedData \<and>
      getp loadedData ''inventory'' = Arr (inventory (snd (handleImportData content s))))"
  by (auto simp: handleImportData_def isArray_def Let_def split: option.splits jsval.splits)

lemma sale_removes_sold_out:
  assumes st: "handleRecordSale item sq tSale tId s = Some (Success, s')"
    and q: "getp item ''quantity'' = Num q" "sq (getp item ''id'') = Num q" "0 < q"
    and i: "getp item ''id'' \<noteq> NaN"
  shows "item \<notin> set (inventory s')"
proof -
  have "js_sub (Num q) (Num q) = Num 0" "\<not> js_gt (Num 0) (Num 0)"
    by (simp_all add: js_sub_def js_gt_def)
  then have "inventory s' = filter (\<lambda>l. \<not> strict_eq (getp l ''id'') (getp item ''id'')) (inventory s)"
    using sale_inventory [OF st] q by (simp add: Let_def)
  then show ?thesis using i by (simp add: strict_eq_def)
qed

text \<open>
  C3 as the claim states it fails for a restore: a backup file whose inventory holds a
  line with quantity \<open>0\<close> is accepted, and the line is in the inventory afterwards.
\<close>

theorem C3_restore_keeps_zero_quantity:
  "fst (handleImportData
          (Some (Obj [(''inventory'', Arr [basic_line ''1'' 0 1700000000000]), (''sales'', Arr [])]))
          empty_ledger) = Success \<and>
   \<not> (\<forall>line \<in> set (inventory (snd (handleImportData
          (Some (Obj [(''inventory'', Arr [basic_line ''1'' 0 1700000000000]), (''sales'', Arr [])]))
          empty_ledger))). positive_quantity line)"
  by (simp add: handleImportData_def isArray_def js_sort_def sort_sales_def empty_ledger_def
      positive_quantity_def basic_line_def)

text \<open>
  C3, amended.  Every step of the ledger keeps all quantities positive, on two
  conditions: the quantity field of a submitted form holds a number for \<open>parseInt\<close>, and the
  lines of a restored backup have positive quantities themselves (a restore installs
  them as they are).  A sale of the whole quantity of a line removes the line.
\<close>

theorem C3_positive_quantities:
  assumes inv: "\<forall>line \<in> set (inventory s). positive_quantity line"
    and st: "step op s = Some s'"
    and add: "\<forall>newItem tId tAdded. op = AddStock newItem tId tAdded \<longrightarrow>
                parseInt10 (getp newItem ''quantity'') \<noteq> NaN"
    and imp: "\<forall>loadedData lines. op = Import (Some loadedData) \<longrightarrow>
                getp loadedData ''inventory'' = Arr lines \<longrightarrow>
                (\<forall>line \<in> set lines. positive_quantity line)"
  shows "(\<forall>line \<in> set (inventory s'). positive_quantity line) \<and>
         (\<forall>item sq tSale tId q.
            op = RecordSale item sq tSale tId \<and> getp item ''quantity'' = Num q \<and>
            sq (getp item ''id'') = Num q \<and> 0 < q \<and> getp item ''id'' \<noteq> NaN \<longrightarrow>
            item \<notin> set (inventory s'))"
proof (cases op)
  case (AddStock newItem tId tAdded)
  then show ?thesis
    using st add add_keeps_positive [OF inv, of newItem tId tAdded] by auto
next
  case (RecordSale item sq tSale tId)
  from st RecordSale obtain out where run: "handleRecordSale item sq tSale tId s = Some (out, s')"
    by (cases "handleRecordSale item sq tSale tId s") auto
  have pos: "\<forall>line \<in> set (inventory s'). positive_quantity line"
    by (rule sale_keeps_positive [OF inv run])
  have gone: "item \<notin> set (inventory s')"
    if q: "getp item ''quantity'' = Num q" "sq (getp item ''id'') = Num q" "0 < q"
      and i: "getp item ''id'' \<noteq> NaN" for q
  proof -
    have "js_gt (Num q) (Num q) = False" "js_le (Num q) (Num 0) = False"
      using q(3) by (simp_all add: js_gt_def js_le_def)
    then have "out = Success"
      using run q by (auto simp: handleRecordSale_def Let_def split: if_splits option.splits)
    with run have "handleRecordSale item sq tSale tId s = Some (Success, s')" by simp
    then show ?thesis
      using q i by (rule sale_removes_sold_out)
  qed
  from pos gone show ?thesis using RecordSale by auto
next
  case (DeleteRecords deleteType)
  then show ?thesis
    using st inv by (auto simp: handleDeleteRecords_def split: option.splits if_splits)
next
  case (Import content)
  from st Import have s': "s' = snd (handleImportData content s)" by simp
  from import_inventory [of content s] have "\<forall>line \<in> set (inventory s'). positive_quantity line"
  proof
    assume "inventory (snd (handleImportData content s)) = inventory s"
    then show ?thesis using inv s' by simp
  next
    assume "\<exists>loadedData. content = Some loadedData \<and>
      getp loadedData ''inventory'' = Arr (inventory (snd (handleImportData content s)))"
    then show ?thesis using imp Import s' by auto
  qed
  then show ?thesis using Import by simp
qed

text \<open>
  The scenario: the line is added with quantity 10, 4 are sold and 6 remain, then the 6
  are sold and the line is gone; and a backup that holds the line with quantity 10 is
  restored.
\<close>

theorem C3_positive_quantities_witness:
  "step (AddStock (form_after basic_case_events) 1700000000000 1700000000000) empty_ledger =
     Some \<lparr>inventory = [basic_line ''1'' 10 1700000000000], sales = []\<rparr> \<and>
   positive_quantity (basic_line ''1'' 10 1700000000000) \<and>
   step (RecordSale (basic_line ''1'' 10 1700000000000)
           (handleSaleQuantityChange (Str '''') ''4'' (\<lambda>i. Undefined)) 1700000120000 1700000120000)
        \<lparr>inventory = [basic_line ''1'' 10 1700000000000], sales = []\<rparr> =
     Some \<lparr>inventory = [basic_line ''1'' 6 1700000000000],
           sales = [basic_sale ''1'' 4 20 1700000120000 1700000120000]\<rparr> \<and>
   positive_quantity (basic_line ''1'' 6 1700000000000) \<and>
   basic_line ''1'' 6 1700000000000 \<notin> set (inventory
     (the (step (RecordSale (basic_line ''1'' 6 1700000000000)
           (handleSaleQuantityChange (Str '''') ''6'' (\<lambda>i. Undefined)) 1700000180000 1700000180000)
        \<lparr>inventory = [basic_line ''1'' 6 1700000000000],
          sales = [basic_sale ''1'' 4 20 1700000120000 1700000120000]\<rparr>))) \<and>
   inventory (the (step (Import (Some (Obj [(''inventory'', Arr [basic_line ''1'' 10 1700000000000]),
                                           (''sales'', Arr [])]))) empty_ledger)) =
     [basic_line ''1'' 10 1700000000000]"
proof -
  let ?l10 = "basic_line ''1'' 10 1700000000000"
  let ?l6 = "basic_line ''1'' 6 1700000000000"
  let ?s1 = "\<lparr>inventory = [?l10], sales = []\<rparr>"
  let ?s2 = "\<lparr>inventory = [?l6], sales = [basic_sale ''1'' 4 20 1700000120000 1700000120000]\<rparr>"
  let ?s3 = "\<lparr>inventory = [], sales = [basic_sale ''1'' 6 30 1700000180000 1700000180000,
               basic_sale ''1'' 4 20 1700000120000 1700000120000]\<rparr>"
  let ?add = "AddStock (form_after basic_case_events) 1700000000000 1700000000000"
  let ?sq4 = "handleSaleQuantityChange (Str '''') ''4'' (\<lambda>i. Undefined)"
  let ?sq6 = "handleSaleQuantityChange (Str '''') ''6'' (\<lambda>i. Undefined)"
  let ?sale4 = "RecordSale ?l10 ?sq4 1700000120000 1700000120000"
  let ?sale6 = "RecordSale ?l6 ?sq6 1700000180000 1700000180000"
  let ?payload = "Obj [(''inventory'', Arr [?l10]), (''sales'', Arr [])]"
  let ?imp = "Import (Some ?payload)"
  have inv0: "\<forall>line \<in> set (inventory empty_ledger). positive_quantity line"
    by (simp add: empty_ledger_def)
  have st1: "step ?add empty_ledger = Some ?s1"
    by (simp add: add_basic_case_first)
  have add1: "\<forall>newItem tId tAdded. ?add = AddStock newItem tId tAdded \<longrightarrow>
                parseInt10 (getp newItem ''quantity'') \<noteq> NaN"
    by (auto simp: form_basic_case parse_eval)
  have imp1: "\<forall>loadedData lines. ?add = Import (Some loadedData) \<longrightarrow>
                getp loadedData ''inventory'' = Arr lines \<longrightarrow>
                (\<forall>line \<in> set lines. positive_quantity line)"
    by simp
  have inv1: "\<forall>line \<in> set (inventory ?s1). positive_quantity line"
    using C3_positive_quantities [OF inv0 st1 add1 imp1] by blast
  have st2: "step ?sale4 ?s1 = Some ?s2"
    by (simp add: sell_four)
  have inv2: "\<forall>line \<in> set (inventory ?s2). positive_quantity line"
    using C3_positive_quantities [OF inv1 st2] by simp
  have st3: "step ?sale6 ?s2 = Some ?s3"
    by (simp add: sell_six)
  have typed: "?sq6 (getp ?l6 ''id'') = Num 6" "getp ?l6 ''quantity'' = Num 6" "getp ?l6 ''id'' \<noteq> NaN"
    by (simp_all add: basic_line_def handleSaleQuantityChange_def parse_eval)
  have gone: "?l6 \<notin> set (inventory ?s3)"
    using C3_positive_quantities [OF inv2 st3] typed by simp
  have st4: "step ?imp empty_ledger = Some \<lparr>inventory = [?l10], sales = []\<rparr>"
    by (simp add: handleImportData_def isArray_def js_sort_def sort_sales_def empty_ledger_def)
  have imp4: "\<forall>loadedData lines. ?imp = Import (Some loadedData) \<longrightarrow>
                getp loadedData ''inventory'' = Arr lines \<longrightarrow>
                (\<forall>line \<in> set lines. positive_quantity line)"
    using inv1 by auto
  have inv4: "\<forall>line \<in> set (inventory \<lparr>inventory = [?l10], sales = []\<rparr>). positive_quantity line"
    using C3_positive_quantities [OF inv0 st4 _ imp4] by simp
  show ?thesis
    using st1 inv1 st2 inv2 gone inv4 by (simp add: st3 st4 del: step.simps)
qed

subsection \<open>C9: restoring a backup\<close>

text \<open>
  C9 (the claim: a restore fails exactly when \<open>inventory\<close> or \<open>sales\<close> of the parsed file is
  not an array, a failed restore changes nothing, a successful one replaces both
  collections).  What the code does with a parsed file \<open>loadedData\<close> (an object): it throws
  the format error, with the ledger unchanged, exactly when one of the two is not an
  array.  Otherwise the inventory is replaced first; then the sales are sorted, and when
  that throws (two or more sales, a \<open>null\<close> among them) the restore ends in the error
  message with the new inventory and the old sales.  Only when the sort returns are
  the sales replaced too.
\<close>

theorem C9_restore_outcomes:
  assumes run: "handleImportData (Some loadedData) s = (out, s')"
    and obj: "loadedData \<noteq> Null" "loadedData \<noteq> Undefined"
  shows "(out = FormatError \<longleftrightarrow>
            \<not> isArray (getp loadedData ''inventory'') \<or> \<not> isArray (getp loadedData ''sales'')) \<and>
         (out = FormatError \<longrightarrow> s' = s) \<and>
         (\<forall>lines records.
            getp loadedData ''inventory'' = Arr lines \<and> getp loadedData ''sales'' = Arr records \<longrightarrow>
            inventory s' = lines \<and>
            (if 2 \<le> length records \<and> Null \<in> set records
             then out = CaughtError \<and> sales s' = sales s
             else out = Success \<and> sales s' = sort_sales records))"
  using run obj
  by (auto simp: handleImportData_def isArray_def js_sort_def Let_def
      split: if_splits option.splits jsval.splits)

text \<open>
  The backup file \<open>{"inventory": [], "sales": [null, null]}\<close>, restored on the ledger that
  holds the line of the scenario: both fields are arrays, the restore fails, and the
  inventory has been emptied.
\<close>

theorem C9_failed_restore_empties_inventory:
  "isArray (getp (Obj [(''inventory'', Arr []), (''sales'', Arr [Null, Null])]) ''inventory'') \<and>
   isArray (getp (Obj [(''inventory'', Arr []), (''sales'', Arr [Null, Null])]) ''sales'') \<and>
   handleImportData (Some (Obj [(''inventory'', Arr []), (''sales'', Arr [Null, Null])]))
       \<lparr>inventory = [basic_line ''1'' 10 1700000000000], sales = []\<rparr> =
     (CaughtError, \<lparr>inventory = [], sales = []\<rparr>)"
proof -
  let ?file = "Obj [(''inventory'', Arr []), (''sales'', Arr [Null, Null])]"
  let ?s = "\<lparr>inventory = [basic_line ''1'' 10 1700000000000], sales = []\<rparr>"
  obtain out s' where run: "handleImportData (Some ?file) ?s = (out, s')"
    by (cases "handleImportData (Some ?file) ?s")
  have fields: "getp ?file ''inventory'' = Arr []" "getp ?file ''sales'' = Arr [Null, Null]"
    by simp_all
  from C9_restore_outcomes [OF run] fields
  have "inventory s' = [] \<and> out = CaughtError \<and> sales s' = sales ?s"
    by simp
  then have "out = CaughtError" "s' = \<lparr>inventory = [], sales = []\<rparr>"
    by (cases s'; simp)+
  with run show ?thesis
    by (simp add: isArray_def)
qed

subsection \<open>Sorting the sales\<close>

lemma timeValue_cases: "timeValue v = NaN \<or> (\<exists>t. timeValue v = Num t)"
  by (cases v) auto

lemma date_cmp_valid:
  assumes "sale_time a = Some x" "sale_time b = Some y"
  shows "date_cmp a b = y - x"
proof -
  from assms have "timeValue (getp a ''saleDate'') = Num x" "timeValue (getp b ''saleDate'') = Num y"
    by (auto simp: sale_time_def split: jsval.splits)
  then show ?thesis by (simp add: date_cmp_def js_sub_def)
qed

lemma not_older_valid:
  assumes "sale_time a = Some x" "sale_time b = Some y"
  shows "not_older a b \<longleftrightarrow> y \<le> x"
  using assms by (simp add: not_older_def)

lemma mset_insert_sale: "mset (insert_sale x xs) = {#x#} + mset xs"
  by (induction xs) auto

lemma mset_sort_sales: "mset (sort_sales xs) = mset xs"
  by (induction xs) (auto simp: sort_sales_def mset_insert_sale)

lemma set_insert_sale: "set (insert_sale x xs) = insert x (set xs)"
  using mset_insert_sale [of x xs] by (metis mset_eq_setD list.simps(15) mset.simps(2) add_mset_add_single union_commute)

lemma set_sort_sales: "set (sort_sales xs) = set xs"
  using mset_sort_sales [of xs] by (rule mset_eq_setD)

lemma sorted_insert_sale:
  assumes "\<forall>sale \<in> set (x # xs). sale_time sale \<noteq> None" "sorted_wrt not_older xs"
  shows "sorted_wrt not_older (insert_sale x xs)"
  using assms
proof (induction xs)
  case Nil
  then show ?case by simp
next
  case (Cons y ys)
  from Cons.prems(1) obtain tx ty where t: "sale_time x = Some tx" "sale_time y = Some ty"
    by auto
  show ?case
  proof (cases "date_cmp x y \<le> 0")
    case True
    then have xy: "ty \<le> tx" using date_cmp_valid [OF t] by simp
    have "not_older x z" if "z \<in> set (y # ys)" for z
    proof -
      from Cons.prems(1) that obtain tz where tz: "sale_time z = Some tz" by auto
      have "tz \<le> ty"
      proof (cases "z = y")
        case True
        then show ?thesis using t tz by simp
      next
        case False
        with that have "z \<in> set ys" by simp
        with Cons.prems(2) have "not_older y z" by simp
        then show ?thesis using not_older_valid [OF t(2) tz] by simp
      qed
      with xy show ?thesis using not_older_valid [OF t(1) tz] by simp
    qed
    then show ?thesis using True Cons.prems(2) by simp
  next
    case False
    then have yx: "not_older y x"
      using date_cmp_valid [OF t] not_older_valid [OF t(2) t(1)] by simp
    have "sorted_wrt not_older (insert_sale x ys)"
      using Cons.IH Cons.prems by simp
    then show ?thesis
      using False yx Cons.prems(2) by (simp add: set_insert_sale)
  qed
qed

lemma sorted_sort_sales:
  assumes "\<forall>sale \<in> set xs. sale_time sale \<noteq> None"
  shows "newest_first (sort_sales xs)"
  using assms
proof (induction xs)
  case Nil
  then show ?case by (simp add: newest_first_def sort_sales_def)
next
  case (Cons x xs)
  then have "sorted_wrt not_older (sort_sales xs)"
    by (simp add: newest_first_def)
  moreover have "\<forall>sale \<in> set (x # sort_sales xs). sale_time sale \<noteq> None"
    using Cons.prems by (simp add: set_sort_sales)
  ultimately have "sorted_wrt not_older (insert_sale x (sort_sales xs))"
    by (intro sorted_insert_sale)
  then show ?case by (simp add: newest_first_def sort_sales_def)
qed


subsection \<open>C10: the order of the sales\<close>

text \<open>
  C10 as the claim states it fails for a restore.  The backup holds three sales: one
  dated, one without a \<open>saleDate\<close>, one dated a minute later.  The restore succeeds and
  leaves them in this order, the earlier sale before the later one.
\<close>

theorem C10_restore_not_newest_first:
  "handleImportData
     (Some (Obj [(''inventory'', Arr []),
                 (''sales'', Arr [Obj [(''saleDate'', TimeStr 1700000120000)], Obj [],
                                  Obj [(''saleDate'', TimeStr 1700000180000)]])]))
     empty_ledger =
   (Success, \<lparr>inventory = [],
              sales = [Obj [(''saleDate'', TimeStr 1700000120000)], Obj [],
                       Obj [(''saleDate'', TimeStr 1700000180000)]]\<rparr>) \<and>
   \<not> newest_first [Obj [(''saleDate'', TimeStr 1700000120000)], Obj [],
                      Obj [(''saleDate'', TimeStr 1700000180000)]] \<and>
   \<not> newest_first [Obj [(''saleDate'', TimeStr 1700000120000)],
                      Obj [(''saleDate'', TimeStr 1700000180000)]]"
  by (simp add: handleImportData_def isArray_def js_sort_def sort_sales_def date_cmp_def
      js_sub_def empty_ledger_def newest_first_def not_older_def sale_time_def)

lemma new_sale_time:
  "sale_time (Obj [(''id'', i), (''inventoryId'', j), (''serialNo'', n), (''code'', c),
                   (''group'', g), (''name'', m), (''rate'', r), (''quantitySold'', q),
                   (''amountSold'', a), (''saleDate'', TimeStr t)]) = Some (of_int t)"
  by (simp add: sale_time_def)

lemma sale_sales:
  assumes run: "handleRecordSale item sq tSale tId s = Some (out, s')"
  shows "sales s' = sales s \<or>
         (\<exists>newSale. sale_time newSale = Some (of_int tSale) \<and>
                     sales s' = sort_sales (newSale # sales s))"
proof -
  let ?q = "if truthy (sq (getp item ''id'')) then sq (getp item ''id'') else Num 0"
  let ?new = "Obj [(''id'', Str (digits_of tId)), (''inventoryId'', getp item ''id''),
                   (''serialNo'', getp item ''serialNo''), (''code'', getp item ''code''),
                   (''group'', getp item ''group''), (''name'', getp item ''name''),
                   (''rate'', getp item ''rate''), (''quantitySold'', ?q),
                   (''amountSold'', parseFloat (calculateAmount ?q (getp item ''rate''))),
                   (''saleDate'', TimeStr tSale)]"
  show ?thesis
  proof (cases "js_le ?q (Num 0) \<or> js_gt ?q (getp item ''quantity'')")
    case True
    then have "s' = s"
      using run by (simp add: handleRecordSale_def Let_def)
    then show ?thesis by simp
  next
    case False
    then have "js_sort (?new # sales s) = Some (sales s')"
      using run by (simp add: handleRecordSale_def Let_def split: option.splits) auto
    then have "sales s' = sort_sales (?new # sales s)"
      by (simp add: js_sort_def split: if_splits)
    moreover have "sale_time ?new = Some (of_int tSale)"
      by (rule new_sale_time)
    ultimately show ?thesis by blast
  qed
qed

lemma import_sales:
  "sales (snd (handleImportData content s)) = sales s \<or>
   (\<exists>loadedData records. content = Some loadedData \<and> getp loadedData ''sales'' = Arr records \<and>
      sales (snd (handleImportData content s)) = sort_sales records)"
  by (auto simp: handleImportData_def isArray_def js_sort_def Let_def
      split: option.splits jsval.splits if_splits)

text \<open>
  C10, amended.  Where every sale record at hand has a valid \<open>saleDate\<close> (those of the
  ledger, and those of a backup that is restored or of the store that is loaded), the
  sales are in newest-first order after every step of the ledger and after the initial
  load, and their dates stay valid.
\<close>

theorem C10_sales_newest_first:
  assumes st: "step op s = Some s'"
    and sorted0: "newest_first (sales s)"
    and valid0: "\<forall>sale \<in> set (sales s). sale_time sale \<noteq> None"
    and imp: "\<forall>loadedData records. op = Import (Some loadedData) \<longrightarrow>
                getp loadedData ''sales'' = Arr records \<longrightarrow>
                (\<forall>sale \<in> set records. sale_time sale \<noteq> None)"
  shows "newest_first (sales s') \<and> (\<forall>sale \<in> set (sales s'). sale_time sale \<noteq> None) \<and>
         (\<forall>storedInventory storedSales s0.
            initialLoad storedInventory storedSales = Some s0 \<and>
            (\<forall>sale \<in> set (loadDataFromLocalStorage storedSales). sale_time sale \<noteq> None) \<longrightarrow>
            newest_first (sales s0))"
proof -
  have load: "newest_first (sales s0)"
    if "initialLoad storedInventory storedSales = Some s0"
      and "\<forall>sale \<in> set (loadDataFromLocalStorage storedSales). sale_time sale \<noteq> None"
    for storedInventory storedSales s0
  proof -
    from that(1) have "sales s0 = sort_sales (loadDataFromLocalStorage storedSales)"
      by (auto simp: initialLoad_def js_sort_def split: option.splits if_splits)
    then show ?thesis using sorted_sort_sales [OF that(2)] by simp
  qed
  have keep: "newest_first (sales s') \<and> (\<forall>sale \<in> set (sales s'). sale_time sale \<noteq> None)"
    if "sales s' = sales s"
    using that sorted0 valid0 by simp
  have resort: "newest_first (sales s') \<and> (\<forall>sale \<in> set (sales s'). sale_time sale \<noteq> None)"
    if "sales s' = sort_sales xs" "\<forall>sale \<in> set xs. sale_time sale \<noteq> None" for xs
    using that sorted_sort_sales [OF that(2)] by (simp add: set_sort_sales)
  have "newest_first (sales s') \<and> (\<forall>sale \<in> set (sales s'). sale_time sale \<noteq> None)"
  proof (cases op)
    case (AddStock newItem tId tAdded)
    with st have "sales s' = sales s"
      by (auto simp: handleAddItem_accepted)
    then show ?thesis by (rule keep)
  next
    case (RecordSale item sq tSale tId)
    from st RecordSale obtain out where run: "handleRecordSale item sq tSale tId s = Some (out, s')"
      by (cases "handleRecordSale item sq tSale tId s") auto
    from sale_sales [OF run] show ?thesis
    proof
      assume "sales s' = sales s"
      then show ?thesis by (rule keep)
    next
      assume "\<exists>newSale. sale_time newSale = Some (of_int tSale) \<and>
                sales s' = sort_sales (newSale # sales s)"
      then obtain newSale where n: "sale_time newSale = Some (of_int tSale)"
        "sales s' = sort_sales (newSale # sales s)" by blast
      have "\<forall>sale \<in> set (newSale # sales s). sale_time sale \<noteq> None"
        using n(1) valid0 by simp
      with n(2) show ?thesis by (rule resort)
    qed
  next
    case (DeleteRecords deleteType)
    with st have "sales s' = sales s \<or> sales s' = []"
      by (auto simp: handleDeleteRecords_def split: option.splits if_splits)
    then show ?thesis
      using keep by (auto simp: newest_first_def)
  next
    case (Import content)
    with st have s': "s' = snd (handleImportData content s)" by simp
    from import_sales [of content s] show ?thesis
    proof
      assume "sales (snd (handleImportData content s)) = sales s"
      then have "sales s' = sales s" using s' by simp
      then show ?thesis by (rule keep)
    next
      assume "\<exists>loadedData records. content = Some loadedData \<and>
          getp loadedData ''sales'' = Arr records \<and>
          sales (snd (handleImportData content s)) = sort_sales records"
      then obtain loadedData records where r: "content = Some loadedData"
        "getp loadedData ''sales'' = Arr records" "sales s' = sort_sales records"
        using s' by blast
      have "\<forall>sale \<in> set records. sale_time sale \<noteq> None"
        using imp Import r(1,2) by blast
      with r(3) show ?thesis by (rule resort)
    qed
  qed
  with load show ?thesis by blast
qed

text \<open>
  The scenario: the second sale is put before the first; and a backup, or the store,
  that holds the two sales oldest first is loaded newest first.
\<close>

theorem C10_sales_newest_first_witness:
  "step (RecordSale (basic_line ''1'' 6 1700000000000)
           (handleSaleQuantityChange (Str '''') ''6'' (\<lambda>i. Undefined)) 1700000180000 1700000180000)
        \<lparr>inventory = [basic_line ''1'' 6 1700000000000],
          sales = [basic_sale ''1'' 4 20 1700000120000 1700000120000]\<rparr> =
     Some \<lparr>inventory = [],
           sales = [basic_sale ''1'' 6 30 1700000180000 1700000180000,
                    basic_sale ''1'' 4 20 1700000120000 1700000120000]\<rparr> \<and>
   newest_first [basic_sale ''1'' 6 30 1700000180000 1700000180000,
                 basic_sale ''1'' 4 20 1700000120000 1700000120000] \<and>
   step (Import (Some (Obj [(''inventory'', Arr []),
                            (''sales'', Arr [basic_sale ''1'' 4 20 1700000120000 1700000120000,
                                             basic_sale ''1'' 6 30 1700000180000 1700000180000])])))
        empty_ledger =
     Some \<lparr>inventory = [],
           sales = [basic_sale ''1'' 6 30 1700000180000 1700000180000,
                    basic_sale ''1'' 4 20 1700000120000 1700000120000]\<rparr> \<and>
   initialLoad None (Some [basic_sale ''1'' 4 20 1700000120000 1700000120000,
                           basic_sale ''1'' 6 30 1700000180000 1700000180000]) =
     Some \<lparr>inventory = [],
           sales = [basic_sale ''1'' 6 30 1700000180000 1700000180000,
                    basic_sale ''1'' 4 20 1700000120000 1700000120000]\<rparr>"
proof -
  let ?sale4 = "basic_sale ''1'' 4 20 1700000120000 1700000120000"
  let ?sale6 = "basic_sale ''1'' 6 30 1700000180000 1700000180000"
  let ?s2 = "\<lparr>inventory = [basic_line ''1'' 6 1700000000000], sales = [?sale4]\<rparr>"
  let ?s3 = "\<lparr>inventory = [], sales = [?sale6, ?sale4]\<rparr>"
  let ?op = "RecordSale (basic_line ''1'' 6 1700000000000)
           (handleSaleQuantityChange (Str '''') ''6'' (\<lambda>i. Undefined)) 1700000180000 1700000180000"
  let ?file = "Obj [(''inventory'', Arr []), (''sales'', Arr [?sale4, ?sale6])]"
  have times: "sale_time ?sale4 = Some 1700000120000" "sale_time ?sale6 = Some 1700000180000"
    by (simp_all add: basic_sale_def sale_time_def)
  have st: "step ?op ?s2 = Some ?s3"
    by (simp add: sell_six)
  have sorted0: "newest_first (sales ?s2)"
    by (simp add: newest_first_def)
  have valid0: "\<forall>sale \<in> set (sales ?s2). sale_time sale \<noteq> None"
    by (simp add: times)
  have nf: "newest_first (sales ?s3)"
    using C10_sales_newest_first [OF st sorted0 valid0] by simp
  have st': "step (Import (Some ?file)) empty_ledger = Some ?s3"
    by (simp add: handleImportData_def isArray_def js_sort_def sort_sales_def date_cmp_def
        js_sub_def empty_ledger_def basic_sale_def)
  have imp: "\<forall>loadedData records. Import (Some ?file) = Import (Some loadedData) \<longrightarrow>
                getp loadedData ''sales'' = Arr records \<longrightarrow>
                (\<forall>sale \<in> set records. sale_time sale \<noteq> None)"
    using times by auto
  have nf': "newest_first (sales ?s3)"
    using C10_sales_newest_first [OF st' _ _ imp] by (simp add: empty_ledger_def newest_first_def)
  have load: "initialLoad None (Some [?sale4, ?sale6]) = Some ?s3"
    by (simp add: initialLoad_def loadDataFromLocalStorage_def js_sort_def sort_sales_def
        date_cmp_def js_sub_def basic_sale_def)
  show ?thesis
    using st nf nf' st' load by (simp del: step.simps)
qed

subsection \<open>C5: export, then import\<close>






subsection \<open>Rounding to two decimal places\<close>









subsection \<open>C6: monetary amounts\<close>






end
